theory Spec2Isabelle
  imports Complex_Main "HOL-Library.Sublist"
begin

section \<open>Data model\<close>

text \<open>
  The backend is a set of request handlers over a document store.  Each handler is
  embedded as a function from the store (and the request) to an outcome and the store
  it leaves behind: a thrown error is \<open>Inl\<close>, a sent response is \<open>Inr\<close>, and the
  store is returned in both cases, since a handler that throws half way keeps the writes
  it has already made.

  JavaScript numbers are embedded as exact rationals (\<open>rat\<close>); object ids and
  statuses are strings, as in the source.  A collection is the list of its documents in
  insertion order.  The field \<open>errlog\<close> of the state collects the lines written with
  \<^verbatim>\<open>console.error\<close>.

  Object ids are taken to be well formed, so that no query throws a cast error.  The
  comment, quotation and LPO schemas are not among the sources: \<open>Comment.create\<close> and
  \<open>Quotation.create\<close> store the document they are given.  Of every document only the
  fields that the handlers below read or write are kept.
\<close>

type_synonym objId = string
type_synonym number = rat

datatype error =
    ApiError nat string
  | ValidationError string
  | TypeError string
  | DuplicateKeyError string

datatype 'a response = ApiResponse (statusCode: nat) (payload: 'a) (message: string)

record project =
  p_id :: objId
  projectName :: string
  client :: objId
  status :: string
  progress :: number
  createdBy :: objId
  updatedBy :: "objId option"
  assignedTo :: "objId option"

record client_doc =
  c_id :: objId
  clientName :: string
  clientAddress :: string
  mobileNumber :: string
  pincode :: string
  trnNumber :: string

record user_doc =
  u_id :: objId
  email :: string
  firstName :: string
  lastName :: string
  role :: string

record estimation_item =
  description :: string
  quantity :: number
  unitPrice :: number
  item_total :: number

record labour_item =
  designation :: string
  days :: number
  price :: number
  labour_total :: number

record estimation =
  e_id :: objId
  e_project :: objId
  estimationNumber :: string
  workStartDate :: int
  workEndDate :: int
  validUntil :: int
  paymentDueBy :: number
  subject :: "string option"
  materials :: "estimation_item list"
  labour :: "labour_item list"
  termsAndConditions :: "estimation_item list"
  estimatedAmount :: number
  quotationAmount :: "number option"
  commissionAmount :: "number option"
  profit :: "number option"
  preparedBy :: objId
  checkedBy :: "objId option"
  approvedBy :: "objId option"
  isChecked :: bool
  isApproved :: bool
  approvalComment :: "string option"

record quotation_item =
  qi_description :: string
  qi_quantity :: number
  qi_unitPrice :: number
  totalPrice :: number
  image :: "string option"

record quotation =
  q_id :: objId
  q_project :: objId
  q_estimation :: "objId option"
  quotationNumber :: string
  scopeOfWork :: "string list"
  items :: "quotation_item list"
  vatPercentage :: number
  subtotal :: number
  vatAmount :: number
  q_total :: number
  netAmount :: "number option"
  q_preparedBy :: "objId option"

record lpo =
  l_id :: objId
  l_project :: objId
  lpoNumber :: string

text \<open>
  The content of an activity-log comment: a given text, or the template
  \<^verbatim>\<open>Progress updated from ${a}% to ${b}%\<close>, kept with its two numbers.
\<close>

datatype comment_content = Text string | ProgressUpdated number number

record comment_doc =
  content :: comment_content
  c_user :: "objId option"
  c_project :: objId
  actionType :: string
  c_progress :: "number option"

record mail =
  mail_to :: string
  mail_subject :: string

record state =
  projects :: "project list"
  clients :: "client_doc list"
  users :: "user_doc list"
  estimations :: "estimation list"
  quotations :: "quotation list"
  lpos :: "lpo list"
  comments :: "comment_doc list"
  errlog :: "string list"

subsection \<open>Collection operations\<close>

text \<open>\<open>Model.findById\<close> and \<open>Model.findOne\<close>: the first document that matches.\<close>

definition findById :: "('a \<Rightarrow> objId) \<Rightarrow> 'a list \<Rightarrow> objId \<Rightarrow> 'a option" where
  "findById key xs i = find (\<lambda>x. key x = i) xs"

definition findOne :: "('a \<Rightarrow> bool) \<Rightarrow> 'a list \<Rightarrow> 'a option" where
  "findOne P xs = find P xs"

text \<open>An update of one document: the first match is replaced, nothing else moves.\<close>

fun update_first :: "('a \<Rightarrow> bool) \<Rightarrow> ('a \<Rightarrow> 'a) \<Rightarrow> 'a list \<Rightarrow> 'a list" where
  "update_first P f [] = []"
| "update_first P f (x # xs) = (if P x then f x # xs else x # update_first P f xs)"

text \<open>JavaScript truthiness of an optional string and of an optional number.\<close>

definition truthy_str :: "string option \<Rightarrow> bool" where
  "truthy_str v = (case v of None \<Rightarrow> False | Some s \<Rightarrow> s \<noteq> [])"

definition truthy_num :: "number option \<Rightarrow> bool" where
  "truthy_num v = (case v of None \<Rightarrow> False | Some x \<Rightarrow> x \<noteq> 0)"

section \<open>Project controller\<close>

subsection \<open>Status transition table\<close>

definition validStatusTransitions :: "string \<Rightarrow> string list option" where
  "validStatusTransitions = map_of
    [(''draft'', [''estimation_prepared'']),
     (''estimation_prepared'', [''quotation_sent'', ''on_hold'', ''cancelled'']),
     (''quotation_sent'',
        [''quotation_approved'', ''quotation_rejected'', ''on_hold'', ''cancelled'']),
     (''quotation_approved'', [''contract_signed'', ''on_hold'', ''cancelled'']),
     (''contract_signed'', [''work_started'', ''on_hold'', ''cancelled'']),
     (''work_started'', [''in_progress'', ''on_hold'', ''cancelled'']),
     (''in_progress'', [''work_completed'', ''on_hold'', ''cancelled'']),
     (''work_completed'', [''quality_check'', ''on_hold'']),
     (''quality_check'', [''client_handover'', ''work_completed'']),
     (''client_handover'', [''final_invoice_sent'', ''on_hold'']),
     (''final_invoice_sent'', [''payment_received'', ''on_hold'']),
     (''payment_received'', [''project_closed'']),
     (''on_hold'', [''in_progress'', ''work_started'', ''cancelled'']),
     (''cancelled'', []),
     (''project_closed'', [])]"

text \<open>
  The guard \<^verbatim>\<open>!validStatusTransitions[project.status]?.includes(status)\<close>: a status
  with no row in the table has no allowed target.
\<close>

definition transition_rejected :: "string \<Rightarrow> string \<Rightarrow> bool" where
  "transition_rejected s t =
     (case validStatusTransitions s of None \<Rightarrow> True | Some ts \<Rightarrow> t \<notin> set ts)"


text \<open>The \<open>enum\<close> of the \<open>status\<close> path of the project schema.\<close>

definition project_status_enum :: "string list" where
  "project_status_enum =
    [''draft'', ''estimation_prepared'', ''quotation_sent'', ''lpo_received'',
     ''work_started'', ''in_progress'', ''work_completed'', ''invoice_sent'',
     ''on_hold'', ''cancelled'']"

text \<open>
  \<open>document.save()\<close> validates the document against its schema before the
  \<open>pre("save")\<close> hooks run and before anything is written.  For a project these are
  the validators of the schema on the fields kept here.
\<close>

definition project_valid :: "project \<Rightarrow> bool" where
  "project_valid p =
     (projectName p \<noteq> [] \<and> length (projectName p) \<le> 100 \<and>
      status p \<in> set project_status_enum \<and> 0 \<le> progress p \<and> progress p \<le> 100)"

subsection \<open>updateProjectStatus\<close>


subsection \<open>updateProject\<close>






subsection \<open>Mailer\<close>

text \<open>
  \<open>Mailer.sendEmail\<close>: the transport (\<open>transporter.sendMail\<close>) is a parameter that
  tells for each mail whether it is delivered.  A failed send is logged and thrown
  again: the result \<open>False\<close> is the exception.
\<close>

definition sendEmail :: "(mail \<Rightarrow> bool) \<Rightarrow> state \<Rightarrow> mail \<Rightarrow> bool \<times> state" where
  "sendEmail transport st m =
     (if transport m then (True, st)
      else (False, st\<lparr>errlog := errlog st @ [''Error sending email:'']\<rparr>))"

subsection \<open>assignProject\<close>

definition assignProject ::
  "(mail \<Rightarrow> bool) \<Rightarrow> state \<Rightarrow> objId \<Rightarrow> objId option \<Rightarrow> (error + unit response) \<times> state" where
  "assignProject transport st i body_assignedTo =
    (case body_assignedTo of
       None \<Rightarrow> (Inl (ApiError 400 ''AssignedTo is required''), st)
     | Some a \<Rightarrow>
        if a = [] \<or> i = [] then (Inl (ApiError 400 ''AssignedTo is required''), st)
        else
          (case findById p_id (projects st) i of
             None \<Rightarrow> (Inl (ApiError 400 ''Project not found''), st)
           | Some proj \<Rightarrow>
              (case findById u_id (users st) a of
                 None \<Rightarrow> (Inl (ApiError 400 ''Engineer not found''), st)
               | Some engineer \<Rightarrow>
                  if \<not> project_valid (proj\<lparr>assignedTo := Some a\<rparr>)
                  then (Inl (ValidationError ''Project validation failed''), st)
                  else
                  let st1 = st\<lparr>projects := update_first (\<lambda>p. p_id p = i)
                                   (\<lambda>p. p\<lparr>assignedTo := Some a\<rparr>) (projects st)\<rparr>;
                      (sent, st2) = sendEmail transport st1
                         \<lparr>mail_to = email engineer,
                          mail_subject = ''Project Assignment: '' @ projectName proj\<rparr>
                  in if sent
                     then (Inr (ApiResponse 200 ()
                             ''Project assigned and notification sent successfully''), st2)
                     else (Inr (ApiResponse 200 ()
                             ''Project assigned successfully but notification email failed to send''),
                           st2\<lparr>errlog := errlog st2 @ [''Email sending failed:'']\<rparr>))))"

subsection \<open>updateProjectProgress\<close>

text \<open>The two status changes made on the loaded project before it is saved.\<close>

definition auto_advance :: "project \<Rightarrow> project" where
  "auto_advance proj =
    (let p1 = (if progress proj \<ge> 0 \<and> status proj = ''lpo_received''
               then proj\<lparr>status := ''work_started''\<rparr> else proj);
         p2 = (if progress p1 > 0 \<and> status p1 = ''work_started''
               then p1\<lparr>status := ''in_progress''\<rparr> else p1)
     in p2)"

definition updateProjectProgress ::
  "state \<Rightarrow> objId \<Rightarrow> objId option \<Rightarrow> number option \<Rightarrow> string option \<Rightarrow>
   (error + project option response) \<times> state" where
  "updateProjectProgress st i userId body_progress body_comment =
    (case body_progress of
       None \<Rightarrow> (Inl (ApiError 400 ''Progress must be between 0 and 100''), st)
     | Some pr \<Rightarrow>
        if pr < 0 \<or> pr > 100
        then (Inl (ApiError 400 ''Progress must be between 0 and 100''), st)
        else
          (case findById p_id (projects st) i of
             None \<Rightarrow> (Inl (ApiError 404 ''Project not found''), st)
           | Some proj0 \<Rightarrow>
              let proj = auto_advance proj0
              in
              if \<not> project_valid proj
              then (Inl (ValidationError ''Project validation failed''), st)
              else
              let new_status = (if pr = 100 \<and> status proj \<noteq> ''work_completed''
                                then Some ''work_completed'' else None);
                  saved = update_first (\<lambda>p. p_id p = i)
                            (\<lambda>p. p\<lparr>status := status proj\<rparr>) (projects st);
                  ps = update_first (\<lambda>p. p_id p = i)
                         (\<lambda>p. p\<lparr>progress := pr, updatedBy := userId,
                                status := (case new_status of Some s \<Rightarrow> s | None \<Rightarrow> status p)\<rparr>)
                         saved;
                  cs = (if truthy_str body_comment \<or> pr \<noteq> progress proj
                        then comments st @
                          [\<lparr>content = (case body_comment of
                                          Some c \<Rightarrow> if c \<noteq> [] then Text c
                                                    else ProgressUpdated (progress proj) pr
                                        | None \<Rightarrow> ProgressUpdated (progress proj) pr),
                            c_user = userId, c_project = i,
                            actionType = ''progress_update'', c_progress = Some pr\<rparr>]
                        else comments st)
              in (Inr (ApiResponse 200 (findById p_id ps i)
                         ''Project progress updated successfully''),
                  st\<lparr>projects := ps, comments := cs\<rparr>)))"

subsection \<open>generateInvoiceData\<close>

record invoice_product =
  sno :: nat
  prod_description :: string
  qty :: number
  prod_unitPrice :: number
  prod_total :: number

record invoice_summary =
  amount :: number
  vat :: number
  totalReceivable :: number

record invoice =
  inv_id :: objId
  orderNumber :: string
  vendee_name :: string
  products :: "invoice_product list"
  summary :: invoice_summary
  inv_preparedBy :: objId

text \<open>\<^verbatim>\<open>s || d\<close> on a string and \<^verbatim>\<open>x || 0\<close> on an optional number.\<close>

definition str_or :: "string \<Rightarrow> string \<Rightarrow> string" where
  "str_or s d = (if s = [] then d else s)"

definition num_or_0 :: "number option \<Rightarrow> number" where
  "num_or_0 v = (case v of None \<Rightarrow> 0 | Some x \<Rightarrow> x)"

fun invoice_products :: "nat \<Rightarrow> quotation_item list \<Rightarrow> invoice_product list" where
  "invoice_products index [] = []"
| "invoice_products index (item # rest) =
     \<lparr>sno = index + 1, prod_description = str_or (qi_description item) ''N/A'',
      qty = qi_quantity item, prod_unitPrice = qi_unitPrice item,
      prod_total = totalPrice item\<rparr> # invoice_products (index + 1) rest"

text \<open>
  \<open>Types.ObjectId.isValid\<close> is a parameter.  The project is loaded with its client
  and its creator populated: a reference to a deleted document populates as null, and
  reading a field of it throws a \<open>TypeError\<close>.
\<close>

definition generateInvoiceData ::
  "(string \<Rightarrow> bool) \<Rightarrow> state \<Rightarrow> objId \<Rightarrow> (error + invoice response) \<times> state" where
  "generateInvoiceData isValid st projectId =
    (if projectId = [] \<or> \<not> isValid projectId
     then (Inl (ApiError 400 ''Valid project ID is required''), st)
     else case findById p_id (projects st) projectId of
       None \<Rightarrow> (Inl (ApiError 404 ''Project not found''), st)
     | Some proj \<Rightarrow>
       (case findOne (\<lambda>q. q_project q = projectId) (quotations st) of
          None \<Rightarrow> (Inl (ApiError 404 ''Quotation not found for this project''), st)
        | Some quot \<Rightarrow>
          (case findOne (\<lambda>l. l_project l = projectId) (lpos st) of
             None \<Rightarrow> (Inl (ApiError 404 ''LPO not found for this project''), st)
           | Some lp \<Rightarrow>
              if items quot = []
              then (Inl (ApiError 400 ''Quotation items are required''), st)
              else
                (case findById c_id (clients st) (client proj) of
                   None \<Rightarrow> (Inl (TypeError ''Cannot read properties of null''), st)
                 | Some cl \<Rightarrow>
                   (case findById u_id (users st) (createdBy proj) of
                      None \<Rightarrow> (Inl (TypeError ''Cannot read properties of null''), st)
                    | Some creator \<Rightarrow>
                       (Inr (ApiResponse 200
                          \<lparr>inv_id = p_id proj,
                           orderNumber = str_or (lpoNumber lp) ''N/A'',
                           vendee_name = str_or (clientName cl) ''IMDAAD LLC'',
                           products = invoice_products 0 (items quot),
                           summary = \<lparr>amount = subtotal quot, vat = vatAmount quot,
                                      totalReceivable = num_or_0 (netAmount quot)\<rparr>,
                           inv_preparedBy = u_id creator\<rparr>
                          ''Invoice data generated successfully''), st))))))"

section \<open>Estimation model\<close>

text \<open>
  The \<open>pre("save")\<close> hook of the estimation schema.  The sums run over the stored
  \<open>total\<close> of each item (\<^verbatim>\<open>item.total || 0\<close> is the total itself on a number), and
  the profit is set only when \<open>quotationAmount\<close> is truthy.
\<close>

definition pre_save :: "estimation \<Rightarrow> estimation" where
  "pre_save e =
    (let materialsTotal = foldl (\<lambda>sum item. sum + item_total item) 0 (materials e);
         labourTotal = foldl (\<lambda>sum item. sum + labour_total item) 0 (labour e);
         termsTotal = foldl (\<lambda>sum item. sum + item_total item) 0 (termsAndConditions e);
         e1 = e\<lparr>estimatedAmount := materialsTotal + labourTotal + termsTotal\<rparr>
     in case quotationAmount e1 of
          None \<Rightarrow> e1
        | Some qa \<Rightarrow>
            if qa \<noteq> 0
            then e1\<lparr>profit := Some (qa - estimatedAmount e1 - num_or_0 (commissionAmount e1))\<rparr>
            else e1)"

text \<open>
  Items as they arrive in a request body: every field may be missing, and \<open>uom\<close> is
  a field of the request only.  The schema requires \<open>description\<close> (or
  \<open>designation\<close>), the two factors and \<open>total\<close>, the numbers not below \<open>0\<close>;
  a request item that passes becomes a stored item.
\<close>

record item_input =
  in_description :: "string option"
  in_uom :: "string option"
  in_quantity :: "number option"
  in_unitPrice :: "number option"
  in_total :: "number option"

record labour_input =
  in_designation :: "string option"
  in_days :: "number option"
  in_price :: "number option"
  in_labour_total :: "number option"

definition item_valid :: "estimation_item \<Rightarrow> bool" where
  "item_valid it =
     (description it \<noteq> [] \<and> 0 \<le> quantity it \<and> 0 \<le> unitPrice it \<and> 0 \<le> item_total it)"

definition labour_valid :: "labour_item \<Rightarrow> bool" where
  "labour_valid it =
     (designation it \<noteq> [] \<and> 0 \<le> days it \<and> 0 \<le> price it \<and> 0 \<le> labour_total it)"

definition validate_item :: "item_input \<Rightarrow> estimation_item option" where
  "validate_item it =
    (case (in_description it, in_quantity it, in_unitPrice it, in_total it) of
       (Some d, Some q, Some u, Some t) \<Rightarrow>
          if item_valid \<lparr>description = d, quantity = q, unitPrice = u, item_total = t\<rparr>
          then Some \<lparr>description = d, quantity = q, unitPrice = u, item_total = t\<rparr>
          else None
     | _ \<Rightarrow> None)"

definition validate_labour :: "labour_input \<Rightarrow> labour_item option" where
  "validate_labour it =
    (case (in_designation it, in_days it, in_price it, in_labour_total it) of
       (Some d, Some n, Some p, Some t) \<Rightarrow>
          if labour_valid \<lparr>designation = d, days = n, price = p, labour_total = t\<rparr>
          then Some \<lparr>designation = d, days = n, price = p, labour_total = t\<rparr>
          else None
     | _ \<Rightarrow> None)"

fun validate_all :: "('a \<Rightarrow> 'b option) \<Rightarrow> 'a list \<Rightarrow> 'b list option" where
  "validate_all v [] = Some []"
| "validate_all v (x # xs) =
     (case v x of None \<Rightarrow> None
      | Some y \<Rightarrow> (case validate_all v xs of None \<Rightarrow> None | Some ys \<Rightarrow> Some (y # ys)))"

definition amount_valid :: "number option \<Rightarrow> bool" where
  "amount_valid v = (case v of None \<Rightarrow> True | Some x \<Rightarrow> 0 \<le> x)"

text \<open>The validators of the estimation schema, on a document.\<close>

definition estimation_valid :: "estimation \<Rightarrow> bool" where
  "estimation_valid e =
     (estimationNumber e \<noteq> [] \<and> workStartDate e < workEndDate e \<and> 0 \<le> paymentDueBy e \<and>
      list_all item_valid (materials e) \<and> list_all labour_valid (labour e) \<and>
      list_all item_valid (termsAndConditions e) \<and> 0 \<le> estimatedAmount e \<and>
      amount_valid (quotationAmount e) \<and> amount_valid (commissionAmount e))"

text \<open>
  \<open>estimation.save()\<close> on a loaded document: the document is validated, the hook
  runs, then the document replaces the stored one.
\<close>

definition save_estimation :: "state \<Rightarrow> estimation \<Rightarrow> (error + estimation) \<times> state" where
  "save_estimation st e =
    (if \<not> estimation_valid e
     then (Inl (ValidationError ''Estimation validation failed''), st)
     else
       let e' = pre_save e
       in (Inr e',
           st\<lparr>estimations :=
                update_first (\<lambda>x. e_id x = e_id e') (\<lambda>_. e') (estimations st)\<rparr>))"

section \<open>Estimation controller\<close>

subsection \<open>createEstimation\<close>








subsection \<open>approveEstimation\<close>

text \<open>
  The body fields \<open>isApproved\<close> and \<open>isChecked\<close> are \<open>None\<close> when the request
  carries no boolean there.  \<open>Comment.create\<close> appends to the activity log.
\<close>

definition approveEstimation ::
  "state \<Rightarrow> objId \<Rightarrow> objId option \<Rightarrow> string option \<Rightarrow> bool option \<Rightarrow>
   (error + estimation response) \<times> state" where
  "approveEstimation st i userId body_comment body_isApproved =
    (if \<not> truthy_str userId then (Inl (ApiError 401 ''Unauthorized''), st)
     else case body_isApproved of
       None \<Rightarrow> (Inl (ApiError 400 ''isApproved must be a boolean''), st)
     | Some approve \<Rightarrow>
       (case findById e_id (estimations st) i of
          None \<Rightarrow> (Inl (ApiError 404 ''Estimation not found''), st)
        | Some estimation \<Rightarrow>
           if \<not> isChecked estimation
           then (Inl (ApiError 400 ''Estimation must be checked before approval/rejection''), st)
           else if isApproved estimation \<and> approve
           then (Inl (ApiError 400 ''Estimation is already approved''), st)
           else
             let st1 = st\<lparr>comments := comments st @
                   [\<lparr>content = Text (if truthy_str body_comment
                                       then (case body_comment of Some c \<Rightarrow> c | None \<Rightarrow> [])
                                       else ''Estimation '' @
                                            (if approve then ''approved'' else ''rejected'')),
                     c_user = userId, c_project = e_project estimation,
                     actionType = (if approve then ''approval'' else ''rejection''),
                     c_progress = None\<rparr>]\<rparr>
             in
             (case save_estimation st1
                    (estimation\<lparr>isApproved := approve,
                                approvedBy := (if approve then userId else None),
                                approvalComment := body_comment\<rparr>) of
                (Inl err, st2) \<Rightarrow> (Inl err, st2)
              | (Inr saved, st2) \<Rightarrow>
                 let st3 = st2\<lparr>projects := update_first (\<lambda>p. p_id p = e_project saved)
                             (\<lambda>p. p\<lparr>status := (if approve then ''quotation_approved''
                                                 else ''quotation_rejected''),
                                    updatedBy := userId\<rparr>) (projects st2)\<rparr>
                 in (Inr (ApiResponse 200 saved
                            (''Estimation '' @ (if approve then ''approved'' else ''rejected'') @
                             '' successfully'')), st3))))"

subsection \<open>markAsChecked\<close>

text \<open>
  The notification of the super admins.  Every send is attempted
  (\<^verbatim>\<open>Promise.all\<close> over the admins); the result tells whether all of them went
  through.  The mail text reads the populated project of the estimation, so with a
  deleted project each callback throws before it sends.
\<close>

fun notify_admins :: "(mail \<Rightarrow> bool) \<Rightarrow> state \<Rightarrow> string \<Rightarrow> user_doc list \<Rightarrow> bool \<times> state" where
  "notify_admins transport st subj [] = (True, st)"
| "notify_admins transport st subj (admin # rest) =
     (let (sent, st1) = sendEmail transport st \<lparr>mail_to = email admin, mail_subject = subj\<rparr>;
          (ok, st2) = notify_admins transport st1 subj rest
      in (sent \<and> ok, st2))"

definition markAsChecked ::
  "(mail \<Rightarrow> bool) \<Rightarrow> state \<Rightarrow> objId \<Rightarrow> objId option \<Rightarrow> string option \<Rightarrow> bool option \<Rightarrow>
   (error + estimation response) \<times> state" where
  "markAsChecked transport st i userId body_comment body_isChecked =
    (if \<not> truthy_str userId then (Inl (ApiError 401 ''Unauthorized''), st)
     else case body_isChecked of
       None \<Rightarrow> (Inl (ApiError 400 ''isChecked must be a boolean''), st)
     | Some checked \<Rightarrow>
       (case findById e_id (estimations st) i of
          None \<Rightarrow> (Inl (ApiError 404 ''Estimation not found''), st)
        | Some estimation \<Rightarrow>
           if isChecked estimation \<and> checked
           then (Inl (ApiError 400 ''Estimation is already checked''), st)
           else
             let st1 = st\<lparr>comments := comments st @
                   [\<lparr>content = Text (if truthy_str body_comment
                                       then (case body_comment of Some c \<Rightarrow> c | None \<Rightarrow> [])
                                       else ''Estimation '' @
                                            (if checked then ''checked''
                                             else ''rejected during check'')),
                     c_user = userId, c_project = e_project estimation,
                     actionType = (if checked then ''check'' else ''rejection''),
                     c_progress = None\<rparr>]\<rparr>
             in
             (case save_estimation st1
                    (estimation\<lparr>isChecked := checked,
                                checkedBy := (if checked then userId else None),
                                approvalComment := (if truthy_str body_comment then body_comment
                                                    else approvalComment estimation)\<rparr>) of
                (Inl err, st2) \<Rightarrow> (Inl err, st2)
              | (Inr saved, st2) \<Rightarrow>
             let st3 = (if \<not> checked
                        then st2\<lparr>projects := update_first (\<lambda>p. p_id p = e_project saved)
                               (\<lambda>p. p\<lparr>status := ''draft'', updatedBy := userId\<rparr>)
                               (projects st2)\<rparr>
                        else st2);
                 st4 = (if checked
                        then
                          (let superAdmins = filter (\<lambda>u. role u = ''super_admin'') (users st3);
                               (ok, st') =
                                 (case findById p_id (projects st3) (e_project saved) of
                                    None \<Rightarrow> (superAdmins = [], st3)
                                  | Some proj \<Rightarrow>
                                      notify_admins transport st3
                                        (''Estimation Checked: '' @ estimationNumber saved)
                                        superAdmins)
                           in if ok then st'
                              else st'\<lparr>errlog := errlog st' @
                                     [''Failed to send notification email to super admin:'']\<rparr>)
                        else st3)
             in (Inr (ApiResponse 200 saved
                        (''Estimation '' @ (if checked then ''checked'' else ''rejected'') @
                         '' successfully'')), st4))))"

subsection \<open>updateEstimation\<close>

text \<open>
  The request body of \<open>updateEstimation\<close>: the three item sections, the two amounts,
  the flags and references that \<open>estimation.set\<close> would copy, and the four fields the
  handler deletes from the body first.
\<close>

record estimation_update =
  up_materials :: "item_input list option"
  up_labour :: "labour_input list option"
  up_termsAndConditions :: "item_input list option"
  up_quotationAmount :: "number option"
  up_commissionAmount :: "number option"
  up_isChecked :: "bool option"
  up_checkedBy :: "objId option"
  up_approvalComment :: "string option"
  up_isApproved :: "bool option"
  up_approvedBy :: "objId option"
  up_estimatedAmount :: "number option"
  up_profit :: "number option"

text \<open>
  The handler sets \<open>item.total\<close> only when both factors are truthy; otherwise the
  item keeps the total that came with the request, if any.
\<close>

definition item_with_total :: "item_input \<Rightarrow> item_input" where
  "item_with_total item =
     (if truthy_num (in_quantity item) \<and> truthy_num (in_unitPrice item)
      then item\<lparr>in_total := Some (num_or_0 (in_quantity item) * num_or_0 (in_unitPrice item))\<rparr>
      else item)"

definition labour_with_total :: "labour_input \<Rightarrow> labour_input" where
  "labour_with_total item =
     (if truthy_num (in_days item) \<and> truthy_num (in_price item)
      then item\<lparr>in_labour_total := Some (num_or_0 (in_days item) * num_or_0 (in_price item))\<rparr>
      else item)"

fun update_items :: "string \<Rightarrow> item_input list \<Rightarrow> error + item_input list" where
  "update_items msg [] = Inr []"
| "update_items msg (item # rest) =
    (if \<not> truthy_str (in_uom item) then Inl (ApiError 400 msg)
     else case update_items msg rest of
            Inl e \<Rightarrow> Inl e
          | Inr rest' \<Rightarrow> Inr (item_with_total item # rest'))"

definition update_labour :: "labour_input list \<Rightarrow> labour_input list" where
  "update_labour ls = map labour_with_total ls"

text \<open>
  \<open>estimation.set(updateData)\<close>: the fields of the body are copied into the
  document, the items of a section cast to the item schema; \<open>None\<close> when an item or
  an amount does not pass its validators.
\<close>

definition set_update ::
  "estimation \<Rightarrow> item_input list option \<Rightarrow> labour_input list option \<Rightarrow>
   item_input list option \<Rightarrow> estimation_update \<Rightarrow> estimation option" where
  "set_update e ms ls ts u =
    (case (case ms of None \<Rightarrow> Some (materials e) | Some xs \<Rightarrow> validate_all validate_item xs,
           case ls of None \<Rightarrow> Some (labour e) | Some xs \<Rightarrow> validate_all validate_labour xs,
           case ts of None \<Rightarrow> Some (termsAndConditions e)
                    | Some xs \<Rightarrow> validate_all validate_item xs) of
       (Some ms', Some ls', Some ts') \<Rightarrow>
          if amount_valid (up_quotationAmount u) \<and> amount_valid (up_commissionAmount u)
          then Some (e\<lparr>materials := ms', labour := ls', termsAndConditions := ts',
                       quotationAmount := (case up_quotationAmount u of
                                             Some x \<Rightarrow> Some x | None \<Rightarrow> quotationAmount e),
                       commissionAmount := (case up_commissionAmount u of
                                              Some x \<Rightarrow> Some x | None \<Rightarrow> commissionAmount e),
                       isChecked := (case up_isChecked u of
                                       Some b \<Rightarrow> b | None \<Rightarrow> isChecked e),
                       checkedBy := (case up_checkedBy u of
                                       Some x \<Rightarrow> Some x | None \<Rightarrow> checkedBy e),
                       approvalComment := (case up_approvalComment u of
                                             Some c \<Rightarrow> Some c | None \<Rightarrow> approvalComment e)\<rparr>)
          else None
     | _ \<Rightarrow> None)"

definition updateEstimation ::
  "state \<Rightarrow> objId \<Rightarrow> estimation_update \<Rightarrow> (error + estimation response) \<times> state" where
  "updateEstimation st i body =
    (case findById e_id (estimations st) i of
       None \<Rightarrow> (Inl (ApiError 404 ''Estimation not found''), st)
     | Some estimation0 \<Rightarrow>
        if isApproved estimation0
        then (Inl (ApiError 400 ''Cannot update approved estimation''), st)
        else
          let estimation = (if isChecked estimation0
                            then estimation0\<lparr>isChecked := False, checkedBy := None,
                                             approvalComment := None\<rparr>
                            else estimation0);
              updateData = body\<lparr>up_isApproved := None, up_approvedBy := None,
                                up_estimatedAmount := None, up_profit := None\<rparr>
          in
          (case (case up_materials updateData of None \<Rightarrow> Inr None
                 | Some xs \<Rightarrow> map_sum id Some
                     (update_items ''UOM is required for material items'' xs)) of
             Inl e \<Rightarrow> (Inl e, st)
           | Inr ms \<Rightarrow>
             (case (case up_termsAndConditions updateData of None \<Rightarrow> Inr None
                    | Some xs \<Rightarrow> map_sum id Some
                        (update_items ''UOM is required for terms items'' xs)) of
                Inl e \<Rightarrow> (Inl e, st)
              | Inr ts \<Rightarrow>
                 let ls = map_option update_labour (up_labour updateData)
                 in (case set_update estimation ms ls ts updateData of
                       None \<Rightarrow> (Inl (ValidationError ''Estimation validation failed''), st)
                     | Some e' \<Rightarrow>
                        (case save_estimation st e' of
                           (Inl err, st') \<Rightarrow> (Inl err, st')
                         | (Inr saved, st') \<Rightarrow>
                            (Inr (ApiResponse 200 saved ''Estimation updated successfully''),
                             st'))))))"

section \<open>Quotation controller\<close>




record upload_file =
  fieldname :: string
  file_body :: string







section \<open>Properties: auxiliary notions\<close>

text \<open>
  The Status Transition Table as the specification lists it, one pair for every allowed
  move, and the contract \<open>isTransitionAllowed\<close> read off it.
\<close>

definition status_transition_table :: "(string \<times> string) list" where
  "status_transition_table =
    [(''draft'', ''estimation_prepared''),
     (''estimation_prepared'', ''quotation_sent''), (''estimation_prepared'', ''on_hold''),
     (''estimation_prepared'', ''cancelled''),
     (''quotation_sent'', ''quotation_approved''), (''quotation_sent'', ''quotation_rejected''),
     (''quotation_sent'', ''on_hold''), (''quotation_sent'', ''cancelled''),
     (''quotation_approved'', ''contract_signed''), (''quotation_approved'', ''on_hold''),
     (''quotation_approved'', ''cancelled''),
     (''contract_signed'', ''work_started''), (''contract_signed'', ''on_hold''),
     (''contract_signed'', ''cancelled''),
     (''work_started'', ''in_progress''), (''work_started'', ''on_hold''),
     (''work_started'', ''cancelled''),
     (''in_progress'', ''work_completed''), (''in_progress'', ''on_hold''),
     (''in_progress'', ''cancelled''),
     (''work_completed'', ''quality_check''), (''work_completed'', ''on_hold''),
     (''quality_check'', ''client_handover''), (''quality_check'', ''work_completed''),
     (''client_handover'', ''final_invoice_sent''), (''client_handover'', ''on_hold''),
     (''final_invoice_sent'', ''payment_received''), (''final_invoice_sent'', ''on_hold''),
     (''payment_received'', ''project_closed''),
     (''on_hold'', ''in_progress''), (''on_hold'', ''work_started''),
     (''on_hold'', ''cancelled'')]"

definition isTransitionAllowed :: "string \<Rightarrow> string \<Rightarrow> bool" where
  "isTransitionAllowed s t = ((s, t) \<in> set status_transition_table)"

definition persisted_status :: "state \<Rightarrow> objId \<Rightarrow> string option" where
  "persisted_status st i = map_option status (findById p_id (projects st) i)"






subsection \<open>Example data\<close>

definition st0 :: state where
  "st0 = \<lparr>projects = [\<lparr>p_id = ''p1'', projectName = ''Villa'', client = ''c1'',
                         status = ''draft'', progress = 0, createdBy = ''u1'',
                         updatedBy = None, assignedTo = None\<rparr>],
          clients = [], users = [], estimations = [], quotations = [], lpos = [],
          comments = [], errlog = []\<rparr>"


definition example_estimation :: estimation where
  "example_estimation =
    \<lparr>e_id = ''e1'', e_project = ''p1'', estimationNumber = ''EST-2024-0001'',
     workStartDate = 1, workEndDate = 2, validUntil = 3, paymentDueBy = 30, subject = None,
     materials = [\<lparr>description = ''Cable'', quantity = 2, unitPrice = 50, item_total = 100\<rparr>],
     labour = [\<lparr>designation = ''Electrician'', days = 3, price = 20, labour_total = 60\<rparr>],
     termsAndConditions = [],
     estimatedAmount = 160, quotationAmount = Some 200, commissionAmount = Some 10,
     profit = Some 30, preparedBy = ''u1'', checkedBy = None, approvedBy = None,
     isChecked = False, isApproved = False, approvalComment = None\<rparr>"

definition invoice_state :: state where
  "invoice_state =
    st0\<lparr>clients := [\<lparr>c_id = ''c1'', clientName = ''Acme'', clientAddress = ''Dubai'',
                       mobileNumber = ''050'', pincode = ''123456'', trnNumber = ''100''\<rparr>],
        users := [\<lparr>u_id = ''u1'', email = ''admin@example.com'', firstName = ''Ada'',
                   lastName = ''Lee'', role = ''super_admin''\<rparr>],
        quotations := [\<lparr>q_id = ''q1'', q_project = ''p1'', q_estimation = None,
                        quotationNumber = ''QTN-2024-0001'', scopeOfWork = [''Wiring''],
                        items = [\<lparr>qi_description = ''Cable'', qi_quantity = 10,
                                  qi_unitPrice = 100, totalPrice = 1000, image = None\<rparr>],
                        vatPercentage = 5, subtotal = 1000, vatAmount = 50, q_total = 1050,
                        netAmount = Some 1050, q_preparedBy = Some ''u1''\<rparr>],
        lpos := [\<lparr>l_id = ''l1'', l_project = ''p1'', lpoNumber = ''LPO-7''\<rparr>]\<rparr>"

definition estimation_state :: state where
  "estimation_state = invoice_state\<lparr>estimations := [example_estimation]\<rparr>"

definition checked_state :: state where
  "checked_state =
     invoice_state\<lparr>estimations := [example_estimation\<lparr>isChecked := True,
                                                          checkedBy := Some ''u1''\<rparr>]\<rparr>"

definition progress_state :: state where
  "progress_state =
     st0\<lparr>projects := [\<lparr>p_id = ''p1'', projectName = ''Villa'', client = ''c1'',
                        status = ''lpo_received'', progress = 50, createdBy = ''u1'',
                        updatedBy = None, assignedTo = None\<rparr>]\<rparr>"


definition empty_update :: estimation_update where
  "empty_update =
    \<lparr>up_materials = None, up_labour = None, up_termsAndConditions = None,
     up_quotationAmount = None, up_commissionAmount = None, up_isChecked = None,
     up_checkedBy = None, up_approvalComment = None, up_isApproved = None,
     up_approvedBy = None, up_estimatedAmount = None, up_profit = None\<rparr>"





text \<open>The mail that \<open>markAsChecked\<close> sends to a super admin.\<close>

definition checked_mail :: "estimation \<Rightarrow> user_doc \<Rightarrow> mail" where
  "checked_mail e admin =
     \<lparr>mail_to = email admin, mail_subject = ''Estimation Checked: '' @ estimationNumber e\<rparr>"

section \<open>Properties\<close>

subsection \<open>Collections\<close>

lemma find_update_first:
  "(\<And>x. P (f x) = P x) \<Longrightarrow> find P (update_first P f xs) = map_option f (find P xs)"
  by (induction xs) auto

lemma findById_update_first:
  "(\<And>x. key (f x) = key x) \<Longrightarrow>
   findById key (update_first (\<lambda>x. key x = i) f xs) i = map_option f (findById key xs i)"
  unfolding findById_def by (rule find_update_first) simp

lemma findById_key: "findById key xs i = Some x \<Longrightarrow> key x = i"
  by (auto simp: findById_def find_Some_iff)

lemma findById_replace:
  "findById key xs i = Some x \<Longrightarrow> key y = key x \<Longrightarrow>
   findById key (update_first (\<lambda>z. key z = key x) (\<lambda>_. y) xs) (key x) = Some y"
  unfolding findById_def
  by (induction xs) (auto split: if_splits)


subsection \<open>Status transitions\<close>

text \<open>The guard of the handlers rejects exactly the pairs the table does not list.\<close>

lemma transition_rejected_iff: "transition_rejected s t = (\<not> isTransitionAllowed s t)"
  unfolding transition_rejected_def isTransitionAllowed_def validStatusTransitions_def
    status_transition_table_def
  by (auto split: if_splits)









subsection \<open>Estimation amounts\<close>



lemma pre_save_fields:
  "materials (pre_save e) = materials e" "labour (pre_save e) = labour e"
  "termsAndConditions (pre_save e) = termsAndConditions e"
  "quotationAmount (pre_save e) = quotationAmount e"
  "commissionAmount (pre_save e) = commissionAmount e"
  "e_id (pre_save e) = e_id e" "e_project (pre_save e) = e_project e"
  "isChecked (pre_save e) = isChecked e" "isApproved (pre_save e) = isApproved e"
  "checkedBy (pre_save e) = checkedBy e" "approvedBy (pre_save e) = approvedBy e"
  "estimationNumber (pre_save e) = estimationNumber e"
  by (simp_all add: pre_save_def Let_def split: option.splits)















lemma sendEmail_fields:
  "estimations (snd (sendEmail transport st m)) = estimations st"
  "projects (snd (sendEmail transport st m)) = projects st"
  "comments (snd (sendEmail transport st m)) = comments st"
  "users (snd (sendEmail transport st m)) = users st"
  by (simp_all add: sendEmail_def)

lemma notify_admins_fields:
  "estimations (snd (notify_admins transport st subj admins)) = estimations st \<and>
   projects (snd (notify_admins transport st subj admins)) = projects st \<and>
   comments (snd (notify_admins transport st subj admins)) = comments st \<and>
   users (snd (notify_admins transport st subj admins)) = users st"
proof (induction admins arbitrary: st)
  case Nil
  then show ?case by simp
next
  case (Cons a admins)
  show ?case
    using Cons.IH[of "snd (sendEmail transport st \<lparr>mail_to = email a, mail_subject = subj\<rparr>)"]
      sendEmail_fields[of transport st "\<lparr>mail_to = email a, mail_subject = subj\<rparr>"]
    by (auto simp: Let_def split: prod.splits)
qed

lemma notify_admins_result:
  "notify_admins transport st subj admins = (ok, st') \<Longrightarrow>
   estimations st' = estimations st \<and> projects st' = projects st \<and>
   comments st' = comments st \<and> users st' = users st"
  using notify_admins_fields[of transport st subj admins] by simp

lemma save_estimation_valid:
  "estimation_valid e \<Longrightarrow>
   save_estimation st e =
     (Inr (pre_save e),
      st\<lparr>estimations := update_first (\<lambda>x. e_id x = e_id e) (\<lambda>_. pre_save e) (estimations st)\<rparr>)"
  by (simp add: save_estimation_def Let_def pre_save_fields)

lemma estimation_valid_flags:
  "estimation_valid (e\<lparr>isChecked := k, checkedBy := b, approvalComment := c\<rparr>) =
     estimation_valid e"
  "estimation_valid (e\<lparr>isApproved := k, approvedBy := b, approvalComment := c\<rparr>) =
     estimation_valid e"
  by (simp_all add: estimation_valid_def)

lemma example_estimation_valid: "estimation_valid example_estimation"
  by (simp add: estimation_valid_def example_estimation_def item_valid_def labour_valid_def
      amount_valid_def)









subsection \<open>Invoice data\<close>

text \<open>
  C3, as stated: the request fails with ``LPO not found for this project'' when the
  project has no LPO, and succeeds when the project has a quotation, an LPO and a
  quotation item.  Both fail.  The quotation is looked up first, so a project with
  neither quotation nor LPO is answered ``Quotation not found for this project''; and a
  project with quotation, LPO and items whose client document has been deleted makes the
  handler throw when it reads the client's name.
\<close>

theorem invoice_data_counterexample:
  "lpos st0 = [] \<and>
   generateInvoiceData (\<lambda>_. True) st0 ''p1'' =
     (Inl (ApiError 404 ''Quotation not found for this project''), st0) \<and>
   generateInvoiceData (\<lambda>_. True) (invoice_state\<lparr>clients := []\<rparr>) ''p1'' =
     (Inl (TypeError ''Cannot read properties of null''), invoice_state\<lparr>clients := []\<rparr>)"
  by (simp add: generateInvoiceData_def st0_def invoice_state_def findById_def findOne_def)

text \<open>
  C3, amended: for a valid id of an existing project, \<open>generateInvoiceData\<close> fails with
  the 404 error ``Quotation not found for this project'' when the project has no
  quotation; with the 404 error ``LPO not found for this project'' when it has a
  quotation but no LPO; and with the 400 error ``Quotation items are required'' when it
  has a quotation and an LPO but the quotation has no line item.  When it has a
  quotation with at least one item and an LPO, and the client and the creator the
  project refers to exist, it succeeds with status 200 and \<open>summary.totalReceivable\<close> is
  the quotation's stored net amount (\<open>0\<close> when none is stored).  The store is never
  changed.
\<close>

theorem invoice_data_requirements:
  assumes "projectId \<noteq> []" and "isValid projectId"
    and "findById p_id (projects st) projectId = Some proj"
  shows "(findOne (\<lambda>q. q_project q = projectId) (quotations st) = None \<longrightarrow>
            generateInvoiceData isValid st projectId =
              (Inl (ApiError 404 ''Quotation not found for this project''), st)) \<and>
         (\<forall>quot. findOne (\<lambda>q. q_project q = projectId) (quotations st) = Some quot \<longrightarrow>
            (findOne (\<lambda>l. l_project l = projectId) (lpos st) = None \<longrightarrow>
               generateInvoiceData isValid st projectId =
                 (Inl (ApiError 404 ''LPO not found for this project''), st)) \<and>
            (\<forall>lp. findOne (\<lambda>l. l_project l = projectId) (lpos st) = Some lp \<longrightarrow>
               (items quot = [] \<longrightarrow>
                  generateInvoiceData isValid st projectId =
                    (Inl (ApiError 400 ''Quotation items are required''), st)) \<and>
               (items quot \<noteq> [] \<and>
                findById c_id (clients st) (client proj) \<noteq> None \<and>
                findById u_id (users st) (createdBy proj) \<noteq> None \<longrightarrow>
                  (\<exists>r. generateInvoiceData isValid st projectId = (Inr r, st) \<and>
                       statusCode r = 200 \<and>
                       totalReceivable (summary (payload r)) = num_or_0 (netAmount quot) \<and>
                       (\<forall>n. netAmount quot = Some n \<longrightarrow>
                            totalReceivable (summary (payload r)) = n)))))"
  using assms
  by (auto simp: generateInvoiceData_def num_or_0_def)

theorem invoice_data_requirements_witness:
  "\<exists>r. generateInvoiceData (\<lambda>_. True) invoice_state ''p1'' = (Inr r, invoice_state) \<and>
       statusCode r = 200 \<and> totalReceivable (summary (payload r)) = 1050"
proof -
  have a: "''p1'' \<noteq> []" "(\<lambda>_. True) ''p1''" by simp_all
  have p: "findById p_id (projects invoice_state) ''p1'' = Some (hd (projects invoice_state))"
    by (simp add: invoice_state_def st0_def findById_def)
  have q: "findOne (\<lambda>q. q_project q = ''p1'') (quotations invoice_state) =
      Some (hd (quotations invoice_state))"
    by (simp add: invoice_state_def st0_def findOne_def)
  have l: "findOne (\<lambda>l. l_project l = ''p1'') (lpos invoice_state) =
      Some (hd (lpos invoice_state))"
    by (simp add: invoice_state_def st0_def findOne_def)
  have h: "items (hd (quotations invoice_state)) \<noteq> [] \<and>
      findById c_id (clients invoice_state) (client (hd (projects invoice_state))) \<noteq> None \<and>
      findById u_id (users invoice_state) (createdBy (hd (projects invoice_state))) \<noteq> None"
    by (simp add: invoice_state_def st0_def findById_def)
  have n: "netAmount (hd (quotations invoice_state)) = Some 1050"
    by (simp add: invoice_state_def st0_def)
  from invoice_data_requirements[OF a p] q l h n show ?thesis
    by blast
qed

subsection \<open>Approval of an estimation\<close>

text \<open>
  C4: for an existing estimation and an authenticated acting user, \<open>approveEstimation\<close>
  fails with a 400 error when the estimation is not checked (whatever the request asks),
  and with a 400 error when the estimation is already approved and approval is
  requested; when the estimation is checked and not approved (and, as every stored
  estimation, satisfies its schema), a request for approval succeeds, and the
  estimation stored afterwards is approved, with \<open>approvedBy\<close> the acting user.  The
  failed requests change nothing.
\<close>

theorem approve_estimation_rules:
  assumes "findById e_id (estimations st) i = Some e" and "truthy_str uid"
  shows "(\<not> isChecked e \<longrightarrow>
            (\<exists>msg. approveEstimation st i uid c a = (Inl (ApiError 400 msg), st)) \<and>
            approveEstimation st i uid c (Some b) =
              (Inl (ApiError 400 ''Estimation must be checked before approval/rejection''), st)) \<and>
         (isApproved e \<longrightarrow>
            (\<exists>msg. approveEstimation st i uid c (Some True) = (Inl (ApiError 400 msg), st))) \<and>
         (isChecked e \<and> isApproved e \<longrightarrow>
            approveEstimation st i uid c (Some True) =
              (Inl (ApiError 400 ''Estimation is already approved''), st)) \<and>
         (isChecked e \<and> \<not> isApproved e \<and> estimation_valid e \<longrightarrow>
            (\<exists>r st'. approveEstimation st i uid c (Some True) = (Inr r, st') \<and>
               statusCode r = 200 \<and> isApproved (payload r) \<and> approvedBy (payload r) = uid \<and>
               findById e_id (estimations st') i = Some (payload r)))"
proof (intro conjI impI)
  assume n: "\<not> isChecked e"
  show "\<exists>msg. approveEstimation st i uid c a = (Inl (ApiError 400 msg), st)"
    using assms n by (cases a) (simp_all add: approveEstimation_def)
  show "approveEstimation st i uid c (Some b) =
      (Inl (ApiError 400 ''Estimation must be checked before approval/rejection''), st)"
    using assms n by (simp add: approveEstimation_def)
next
  assume "isApproved e"
  then show "\<exists>msg. approveEstimation st i uid c (Some True) = (Inl (ApiError 400 msg), st)"
    using assms by (simp add: approveEstimation_def)
next
  assume "isChecked e \<and> isApproved e"
  then show "approveEstimation st i uid c (Some True) =
      (Inl (ApiError 400 ''Estimation is already approved''), st)"
    using assms by (simp add: approveEstimation_def)
next
  assume h: "isChecked e \<and> \<not> isApproved e \<and> estimation_valid e"
  have k: "e_id e = i" using assms(1) by (rule findById_key)
  have v: "estimation_valid (e\<lparr>isApproved := True, approvedBy := uid, approvalComment := c\<rparr>)"
    using h by (simp add: estimation_valid_def)
  show "\<exists>r st'. approveEstimation st i uid c (Some True) = (Inr r, st') \<and>
       statusCode r = 200 \<and> isApproved (payload r) \<and> approvedBy (payload r) = uid \<and>
       findById e_id (estimations st') i = Some (payload r)"
    using assms h k findById_replace[OF assms(1)]
    by (simp add: approveEstimation_def save_estimation_valid[OF v] Let_def pre_save_fields)
qed

theorem approve_estimation_rules_witness:
  "approveEstimation estimation_state ''e1'' (Some ''u9'') None (Some True) =
     (Inl (ApiError 400 ''Estimation must be checked before approval/rejection''),
      estimation_state) \<and>
   (\<exists>r st'. approveEstimation checked_state ''e1'' (Some ''u9'') None (Some True) = (Inr r, st') \<and>
      statusCode r = 200 \<and> isApproved (payload r) \<and> approvedBy (payload r) = Some ''u9'' \<and>
      findById e_id (estimations st') ''e1'' = Some (payload r))"
proof -
  have f1: "findById e_id (estimations estimation_state) ''e1'' = Some example_estimation"
    by (simp add: estimation_state_def findById_def example_estimation_def)
  have f2: "findById e_id (estimations checked_state) ''e1'' =
      Some (example_estimation\<lparr>isChecked := True, checkedBy := Some ''u1''\<rparr>)"
    by (simp add: checked_state_def findById_def example_estimation_def)
  have u: "truthy_str (Some ''u9'')" by (simp add: truthy_str_def)
  have c1: "\<not> isChecked example_estimation" by (simp add: example_estimation_def)
  have c2: "isChecked (example_estimation\<lparr>isChecked := True, checkedBy := Some ''u1''\<rparr>) \<and>
      \<not> isApproved (example_estimation\<lparr>isChecked := True, checkedBy := Some ''u1''\<rparr>) \<and>
      estimation_valid (example_estimation\<lparr>isChecked := True, checkedBy := Some ''u1''\<rparr>)"
    using example_estimation_valid by (simp add: example_estimation_def estimation_valid_def)
  from approve_estimation_rules[OF f1 u, of None None True] c1
    approve_estimation_rules[OF f2 u, of None None True] c2
  show ?thesis by blast
qed

subsection \<open>Editing an estimation\<close>












text \<open>
  The handler does not remove \<open>isChecked\<close> from the body, so a payload that carries
  \<open>isChecked: true\<close> sets the flag again after the reset.
\<close>

lemma update_estimation_payload_flag:
  "map_sum id (\<lambda>r. isChecked (payload r))
     (fst (updateEstimation checked_state ''e1'' (empty_update\<lparr>up_isChecked := Some True\<rparr>))) =
   Inr True"
  by (simp add: updateEstimation_def checked_state_def invoice_state_def st0_def findById_def
      example_estimation_def empty_update_def set_update_def amount_valid_def
      save_estimation_def pre_save_def Let_def num_or_0_def estimation_valid_def
      item_valid_def labour_valid_def)



subsection \<open>One estimation per project\<close>








subsection \<open>Quotation totals\<close>





subsection \<open>Progress-driven status changes\<close>

lemma auto_advance_fields:
  "p_id (auto_advance proj) = p_id proj" "progress (auto_advance proj) = progress proj"
  by (simp_all add: auto_advance_def Let_def)

lemma auto_advance_status:
  "status (auto_advance proj) =
     (if status proj = ''lpo_received'' \<and> 0 \<le> progress proj
      then (if 0 < progress proj then ''in_progress'' else ''work_started'')
      else if status proj = ''work_started'' \<and> 0 < progress proj then ''in_progress''
      else status proj)"
  by (simp add: auto_advance_def Let_def)

lemma update_first_twice:
  "(\<And>x. P (f x) = P x) \<Longrightarrow>
   update_first P g (update_first P f xs) = update_first P (\<lambda>x. g (f x)) xs"
  by (induction xs) auto

lemma auto_advance_valid:
  assumes "project_valid proj"
  shows "project_valid (auto_advance proj)"
proof -
  have n: "projectName (auto_advance proj) = projectName proj"
    by (simp add: auto_advance_def Let_def)
  have "status (auto_advance proj) = ''in_progress'' \<or>
        status (auto_advance proj) = ''work_started'' \<or>
        status (auto_advance proj) = status proj"
    by (simp add: auto_advance_status)
  moreover have "''in_progress'' \<in> set project_status_enum"
    and "''work_started'' \<in> set project_status_enum"
    by (simp_all add: project_status_enum_def)
  moreover have "status proj \<in> set project_status_enum"
    using assms by (simp add: project_valid_def)
  ultimately have "status (auto_advance proj) \<in> set project_status_enum"
    by metis
  then show ?thesis
    using assms n by (simp add: project_valid_def auto_advance_fields)
qed

lemma updateProjectProgress_result:
  assumes "findById p_id (projects st) i = Some proj" and "0 \<le> pr" and "pr \<le> 100"
    and "project_valid proj"
  shows "\<exists>r st'. updateProjectProgress st i uid (Some pr) c = (Inr r, st') \<and>
           statusCode r = 200 \<and>
           persisted_status st' i =
             Some (if pr = 100 then ''work_completed'' else status (auto_advance proj)) \<and>
           map_option progress (findById p_id (projects st') i) = Some pr"
  using assms auto_advance_valid[OF assms(4)]
  by (auto simp: updateProjectProgress_def Let_def persisted_status_def update_first_twice
      findById_update_first)

text \<open>
  C8, as stated: when the stored status is \<open>lpo_received\<close> the status is advanced to
  \<open>work_started\<close>, and the advance to \<open>in_progress\<close> applies when the stored status
  is \<open>work_started\<close>.  It fails: the second test reads the status the first one has
  just set, so a project stored as \<open>lpo_received\<close> with progress \<open>50\<close> that is
  updated to progress \<open>60\<close> is persisted as \<open>in_progress\<close>, not as
  \<open>work_started\<close>.
\<close>

theorem progress_status_counterexample:
  "persisted_status progress_state ''p1'' = Some ''lpo_received'' \<and>
   persisted_status (snd (updateProjectProgress progress_state ''p1'' (Some ''u1'') (Some 60) None))
      ''p1'' = Some ''in_progress''"
  by (simp add: updateProjectProgress_def progress_state_def st0_def findById_def
      persisted_status_def auto_advance_def truthy_str_def Let_def project_valid_def
      project_status_enum_def)

text \<open>
  C8, amended: a call of \<open>updateProjectProgress\<close> with a progress in \<open>[0, 100]\<close> on an
  existing project that satisfies its schema succeeds, stores the new progress, and persists this status: if the
  new progress is \<open>100\<close>, \<open>work_completed\<close>, whatever the status was; otherwise, if
  the stored status is \<open>lpo_received\<close>, \<open>work_started\<close> when the stored progress is
  \<open>0\<close> and \<open>in_progress\<close> when the stored progress is positive; if the stored status
  is \<open>work_started\<close> and the stored progress is positive, \<open>in_progress\<close>; in every
  other case the stored status.  None of these changes consults the Status Transition
  Table: the table has no row for \<open>lpo_received\<close> and does not list the move from
  \<open>draft\<close> to \<open>work_completed\<close>, yet both are made.
\<close>

theorem progress_status_changes:
  assumes "findById p_id (projects st) i = Some proj" and "0 \<le> pr" and "pr \<le> 100"
    and "project_valid proj"
  shows "(\<exists>r st'. updateProjectProgress st i uid (Some pr) c = (Inr r, st') \<and>
            statusCode r = 200 \<and>
            map_option progress (findById p_id (projects st') i) = Some pr \<and>
            (pr = 100 \<longrightarrow> persisted_status st' i = Some ''work_completed'') \<and>
            (pr \<noteq> 100 \<and> status proj = ''lpo_received'' \<and> progress proj = 0 \<longrightarrow>
               persisted_status st' i = Some ''work_started'') \<and>
            (pr \<noteq> 100 \<and> status proj = ''lpo_received'' \<and> 0 < progress proj \<longrightarrow>
               persisted_status st' i = Some ''in_progress'') \<and>
            (pr \<noteq> 100 \<and> status proj = ''work_started'' \<and> 0 < progress proj \<longrightarrow>
               persisted_status st' i = Some ''in_progress'') \<and>
            (pr \<noteq> 100 \<and> status proj = ''work_started'' \<and> progress proj \<le> 0 \<longrightarrow>
               persisted_status st' i = Some ''work_started'') \<and>
            (pr \<noteq> 100 \<and> status proj \<noteq> ''lpo_received'' \<and> status proj \<noteq> ''work_started'' \<longrightarrow>
               persisted_status st' i = Some (status proj))) \<and>
         validStatusTransitions ''lpo_received'' = None \<and>
         \<not> isTransitionAllowed ''lpo_received'' t \<and>
         \<not> isTransitionAllowed ''draft'' ''work_completed''"
proof (intro conjI)
  from updateProjectProgress_result[OF assms, of uid c] obtain r st' where
    u: "updateProjectProgress st i uid (Some pr) c = (Inr r, st')" and
    s: "statusCode r = 200" and
    p: "persisted_status st' i =
          Some (if pr = 100 then ''work_completed'' else status (auto_advance proj))" and
    g: "map_option progress (findById p_id (projects st') i) = Some pr"
    by blast
  have "(pr = 100 \<longrightarrow> persisted_status st' i = Some ''work_completed'') \<and>
        (pr \<noteq> 100 \<and> status proj = ''lpo_received'' \<and> progress proj = 0 \<longrightarrow>
           persisted_status st' i = Some ''work_started'') \<and>
        (pr \<noteq> 100 \<and> status proj = ''lpo_received'' \<and> 0 < progress proj \<longrightarrow>
           persisted_status st' i = Some ''in_progress'') \<and>
        (pr \<noteq> 100 \<and> status proj = ''work_started'' \<and> 0 < progress proj \<longrightarrow>
           persisted_status st' i = Some ''in_progress'') \<and>
        (pr \<noteq> 100 \<and> status proj = ''work_started'' \<and> progress proj \<le> 0 \<longrightarrow>
           persisted_status st' i = Some ''work_started'') \<and>
        (pr \<noteq> 100 \<and> status proj \<noteq> ''lpo_received'' \<and> status proj \<noteq> ''work_started'' \<longrightarrow>
           persisted_status st' i = Some (status proj))"
    unfolding p auto_advance_status by simp
  with u s g show "\<exists>r st'. updateProjectProgress st i uid (Some pr) c = (Inr r, st') \<and>
            statusCode r = 200 \<and>
            map_option progress (findById p_id (projects st') i) = Some pr \<and>
            (pr = 100 \<longrightarrow> persisted_status st' i = Some ''work_completed'') \<and>
            (pr \<noteq> 100 \<and> status proj = ''lpo_received'' \<and> progress proj = 0 \<longrightarrow>
               persisted_status st' i = Some ''work_started'') \<and>
            (pr \<noteq> 100 \<and> status proj = ''lpo_received'' \<and> 0 < progress proj \<longrightarrow>
               persisted_status st' i = Some ''in_progress'') \<and>
            (pr \<noteq> 100 \<and> status proj = ''work_started'' \<and> 0 < progress proj \<longrightarrow>
               persisted_status st' i = Some ''in_progress'') \<and>
            (pr \<noteq> 100 \<and> status proj = ''work_started'' \<and> progress proj \<le> 0 \<longrightarrow>
               persisted_status st' i = Some ''work_started'') \<and>
            (pr \<noteq> 100 \<and> status proj \<noteq> ''lpo_received'' \<and> status proj \<noteq> ''work_started'' \<longrightarrow>
               persisted_status st' i = Some (status proj))"
    by blast
  show "validStatusTransitions ''lpo_received'' = None"
    by (simp add: validStatusTransitions_def)
  show "\<not> isTransitionAllowed ''lpo_received'' t"
    by (simp add: isTransitionAllowed_def status_transition_table_def)
  show "\<not> isTransitionAllowed ''draft'' ''work_completed''"
    by (simp add: isTransitionAllowed_def status_transition_table_def)
qed

theorem progress_status_changes_witness:
  "(\<exists>r st'. updateProjectProgress progress_state ''p1'' (Some ''u1'') (Some 60) None = (Inr r, st') \<and>
      statusCode r = 200 \<and> persisted_status st' ''p1'' = Some ''in_progress'') \<and>
   (\<exists>r st'. updateProjectProgress st0 ''p1'' (Some ''u1'') (Some 100) None = (Inr r, st') \<and>
      statusCode r = 200 \<and> persisted_status st' ''p1'' = Some ''work_completed'')"
proof -
  have f1: "findById p_id (projects progress_state) ''p1'' = Some (hd (projects progress_state))"
    by (simp add: progress_state_def findById_def)
  have f2: "findById p_id (projects st0) ''p1'' = Some (hd (projects st0))"
    by (simp add: st0_def findById_def)
  have h1: "(60::number) \<noteq> 100 \<and> status (hd (projects progress_state)) = ''lpo_received'' \<and>
      0 < progress (hd (projects progress_state))"
    by (simp add: progress_state_def)
  have b1: "(0::number) \<le> 60" "(60::number) \<le> 100" by simp_all
  have b2: "(0::number) \<le> 100" "(100::number) \<le> 100" by simp_all
  have v1: "project_valid (hd (projects progress_state))"
    by (simp add: progress_state_def project_valid_def project_status_enum_def)
  have v2: "project_valid (hd (projects st0))"
    by (simp add: st0_def project_valid_def project_status_enum_def)
  from progress_status_changes[OF f1 b1 v1, of "Some ''u1''" None, THEN conjunct1]
  obtain r1 s1 where
    r1: "updateProjectProgress progress_state ''p1'' (Some ''u1'') (Some 60) None = (Inr r1, s1)"
      "statusCode r1 = 200"
      "(60::number) \<noteq> 100 \<and> status (hd (projects progress_state)) = ''lpo_received'' \<and>
         0 < progress (hd (projects progress_state)) \<longrightarrow>
       persisted_status s1 ''p1'' = Some ''in_progress''"
    by (elim exE conjE) (rule that)
  from progress_status_changes[OF f2 b2 v2, of "Some ''u1''" None, THEN conjunct1]
  obtain r2 s2 where
    r2: "updateProjectProgress st0 ''p1'' (Some ''u1'') (Some 100) None = (Inr r2, s2)"
      "statusCode r2 = 200"
      "(100::number) = 100 \<longrightarrow> persisted_status s2 ''p1'' = Some ''work_completed''"
    by (elim exE conjE) (rule that)
  from r1 h1 have "persisted_status s1 ''p1'' = Some ''in_progress''" by simp
  moreover from r2 have "persisted_status s2 ''p1'' = Some ''work_completed''" by simp
  ultimately show ?thesis using r1(1,2) r2(1,2) by simp
qed

subsection \<open>Notifications\<close>

lemma notify_admins_ok:
  "fst (notify_admins transport st subj admins) =
     (\<forall>admin \<in> set admins. transport \<lparr>mail_to = email admin, mail_subject = subj\<rparr>)"
  by (induction admins arbitrary: st) (auto simp: Let_def sendEmail_def split: prod.splits)

lemma assignProject_result:
  assumes "a \<noteq> []" "i \<noteq> []" "findById p_id (projects st) i = Some proj"
    "findById u_id (users st) a = Some eng" "project_valid proj"
  shows "fst (assignProject transport st i (Some a)) =
           Inr (ApiResponse 200 ()
             (if transport \<lparr>mail_to = email eng,
                            mail_subject = ''Project Assignment: '' @ projectName proj\<rparr>
              then ''Project assigned and notification sent successfully''
              else ''Project assigned successfully but notification email failed to send''))"
    and "projects (snd (assignProject transport st i (Some a))) =
           update_first (\<lambda>p. p_id p = i) (\<lambda>p. p\<lparr>assignedTo := Some a\<rparr>) (projects st)"
    and "errlog (snd (assignProject transport st i (Some a))) =
           (if transport \<lparr>mail_to = email eng,
                          mail_subject = ''Project Assignment: '' @ projectName proj\<rparr>
            then errlog st
            else errlog st @ [''Error sending email:'', ''Email sending failed:''])"
  using assms by (simp_all add: assignProject_def sendEmail_def Let_def project_valid_def)

lemma markAsChecked_checked_result:
  assumes "truthy_str uid" "findById e_id (estimations st) j = Some e" "\<not> isChecked e"
    "estimation_valid e"
  shows "fst (markAsChecked transport st j uid c (Some True)) =
           Inr (ApiResponse 200
                  (pre_save (e\<lparr>isChecked := True, checkedBy := uid,
                               approvalComment := (if truthy_str c then c
                                                   else approvalComment e)\<rparr>))
                  ''Estimation checked successfully'')"
    and "estimations (snd (markAsChecked transport st j uid c (Some True))) =
           update_first (\<lambda>x. e_id x = e_id e)
             (\<lambda>_. pre_save (e\<lparr>isChecked := True, checkedBy := uid,
                               approvalComment := (if truthy_str c then c
                                                   else approvalComment e)\<rparr>))
             (estimations st)"
    and "projects (snd (markAsChecked transport st j uid c (Some True))) = projects st"
  using assms
  by (auto simp: markAsChecked_def save_estimation_def Let_def pre_save_fields
      estimation_valid_flags
      split: prod.splits option.splits dest!: notify_admins_result)

lemma markAsChecked_checked_log:
  assumes "truthy_str uid" "findById e_id (estimations st) j = Some e" "\<not> isChecked e"
    and "estimation_valid e"
    and "admin \<in> set (users st)" "role admin = ''super_admin''"
    and "\<not> transport (checked_mail e admin)"
  shows "''Failed to send notification email to super admin:'' \<in>
           set (errlog (snd (markAsChecked transport st j uid c (Some True))))"
proof -
  let ?admins = "filter (\<lambda>u. role u = ''super_admin'') (users st)"
  have m: "admin \<in> set ?admins" using assms(5,6) by simp
  have n: "\<And>s. \<not> fst (notify_admins transport s
                (''Estimation Checked: '' @ estimationNumber e) ?admins)"
    unfolding notify_admins_ok using m assms(7) by (auto simp: checked_mail_def)
  have e: "?admins \<noteq> []" using m by (auto simp: filter_empty_conv)
  have n': "\<And>s s' subj. notify_admins transport s subj ?admins = (True, s') \<Longrightarrow>
                subj = ''Estimation Checked: '' @ estimationNumber e \<Longrightarrow> False"
    using n by (metis fst_conv)
  show ?thesis
    using assms(1-4) e
    by (auto simp: markAsChecked_def save_estimation_def Let_def pre_save_fields
        estimation_valid_flags
        split: prod.splits option.splits dest: n')
qed

text \<open>
  C9: a failure of the mail transport during \<open>assignProject\<close> or during the
  notification of \<open>markAsChecked\<close> is caught and logged; the handler still answers
  with status 200, and what it has persisted (the assignment, the \<open>isChecked\<close> flag) is
  the same as when the mail goes through.  The project and the estimation are taken to
  satisfy their schemas, so that the save before the mail goes through.
\<close>

theorem notification_failure_is_advisory:
  "(a \<noteq> [] \<and> i \<noteq> [] \<and> findById p_id (projects st) i = Some proj \<and>
    findById u_id (users st) a = Some eng \<and> project_valid proj \<longrightarrow>
      (\<exists>r st'. assignProject transport st i (Some a) = (Inr r, st') \<and> statusCode r = 200 \<and>
         map_option assignedTo (findById p_id (projects st') i) = Some (Some a) \<and>
         projects st' = projects (snd (assignProject (\<lambda>_. True) st i (Some a))) \<and>
         (\<not> transport \<lparr>mail_to = email eng,
                        mail_subject = ''Project Assignment: '' @ projectName proj\<rparr> \<longrightarrow>
            ''Email sending failed:'' \<in> set (errlog st')))) \<and>
   (truthy_str uid \<and> findById e_id (estimations st) j = Some e \<and> \<not> isChecked e \<and>
    estimation_valid e \<longrightarrow>
      (\<exists>r st'. markAsChecked transport st j uid c (Some True) = (Inr r, st') \<and>
         statusCode r = 200 \<and> isChecked (payload r) \<and> checkedBy (payload r) = uid \<and>
         findById e_id (estimations st') j = Some (payload r) \<and>
         Inr r = fst (markAsChecked (\<lambda>_. True) st j uid c (Some True)) \<and>
         estimations st' = estimations (snd (markAsChecked (\<lambda>_. True) st j uid c (Some True))) \<and>
         projects st' = projects (snd (markAsChecked (\<lambda>_. True) st j uid c (Some True))) \<and>
         (\<forall>admin \<in> set (users st).
            role admin = ''super_admin'' \<and> \<not> transport (checked_mail e admin) \<longrightarrow>
            ''Failed to send notification email to super admin:'' \<in> set (errlog st'))))"
proof (intro conjI impI)
  assume h: "a \<noteq> [] \<and> i \<noteq> [] \<and> findById p_id (projects st) i = Some proj \<and>
    findById u_id (users st) a = Some eng \<and> project_valid proj"
  then have h': "a \<noteq> []" "i \<noteq> []" "findById p_id (projects st) i = Some proj"
    "findById u_id (users st) a = Some eng" "project_valid proj" by simp_all
  obtain out st' where o: "assignProject transport st i (Some a) = (out, st')"
    by (cases "assignProject transport st i (Some a)") auto
  note r = assignProject_result[OF h', of transport]
  note r0 = assignProject_result[OF h', of "\<lambda>_. True"]
  have 1: "\<exists>r. out = Inr r \<and> statusCode r = 200"
    using r(1) o by simp
  have 2: "map_option assignedTo (findById p_id (projects st') i) = Some (Some a)"
    using r(2) o h'(3) by (simp add: findById_update_first)
  have 3: "projects st' = projects (snd (assignProject (\<lambda>_. True) st i (Some a)))"
    using r(2) r0(2) o by simp
  have 4: "\<not> transport \<lparr>mail_to = email eng,
                        mail_subject = ''Project Assignment: '' @ projectName proj\<rparr> \<longrightarrow>
            ''Email sending failed:'' \<in> set (errlog st')"
    using r(3) o by simp
  from o 1 2 3 4
  show "\<exists>r st'. assignProject transport st i (Some a) = (Inr r, st') \<and> statusCode r = 200 \<and>
         map_option assignedTo (findById p_id (projects st') i) = Some (Some a) \<and>
         projects st' = projects (snd (assignProject (\<lambda>_. True) st i (Some a))) \<and>
         (\<not> transport \<lparr>mail_to = email eng,
                        mail_subject = ''Project Assignment: '' @ projectName proj\<rparr> \<longrightarrow>
            ''Email sending failed:'' \<in> set (errlog st'))"
    by blast
next
  assume h: "truthy_str uid \<and> findById e_id (estimations st) j = Some e \<and> \<not> isChecked e \<and>
    estimation_valid e"
  then have h': "truthy_str uid" "findById e_id (estimations st) j = Some e" "\<not> isChecked e"
    "estimation_valid e"
    by simp_all
  obtain out st' where o: "markAsChecked transport st j uid c (Some True) = (out, st')"
    by (cases "markAsChecked transport st j uid c (Some True)") auto
  let ?saved = "pre_save (e\<lparr>isChecked := True, checkedBy := uid,
                  approvalComment := (if truthy_str c then c else approvalComment e)\<rparr>)"
  note r = markAsChecked_checked_result[OF h', of transport c]
  note r0 = markAsChecked_checked_result[OF h', of "\<lambda>_. True" c]
  have k: "e_id e = j" using h'(2) by (rule findById_key)
  have 1: "out = Inr (ApiResponse 200 ?saved ''Estimation checked successfully'')"
    using r(1) o by simp
  have 2: "findById e_id (estimations st') j = Some ?saved"
    using r(2) o k findById_replace[OF h'(2), of ?saved] by (simp add: pre_save_fields)
  have 3: "out = fst (markAsChecked (\<lambda>_. True) st j uid c (Some True))"
    using 1 r0(1) by simp
  have 4: "estimations st' = estimations (snd (markAsChecked (\<lambda>_. True) st j uid c (Some True)))"
    "projects st' = projects (snd (markAsChecked (\<lambda>_. True) st j uid c (Some True)))"
    using r(2,3) r0(2,3) o by simp_all
  have 5: "\<forall>admin \<in> set (users st).
            role admin = ''super_admin'' \<and> \<not> transport (checked_mail e admin) \<longrightarrow>
            ''Failed to send notification email to super admin:'' \<in> set (errlog st')"
    using markAsChecked_checked_log[OF h', of _ transport c] o by auto
  have 6: "isChecked ?saved \<and> checkedBy ?saved = uid"
    by (simp add: pre_save_fields)
  show "\<exists>r st'. markAsChecked transport st j uid c (Some True) = (Inr r, st') \<and>
         statusCode r = 200 \<and> isChecked (payload r) \<and> checkedBy (payload r) = uid \<and>
         findById e_id (estimations st') j = Some (payload r) \<and>
         Inr r = fst (markAsChecked (\<lambda>_. True) st j uid c (Some True)) \<and>
         estimations st' = estimations (snd (markAsChecked (\<lambda>_. True) st j uid c (Some True))) \<and>
         projects st' = projects (snd (markAsChecked (\<lambda>_. True) st j uid c (Some True))) \<and>
         (\<forall>admin \<in> set (users st).
            role admin = ''super_admin'' \<and> \<not> transport (checked_mail e admin) \<longrightarrow>
            ''Failed to send notification email to super admin:'' \<in> set (errlog st'))"
    apply (rule exI[of _ "ApiResponse 200 ?saved ''Estimation checked successfully''"])
    apply (rule exI[of _ st'])
    using o 1 2 3 4 5 6 by simp
qed

theorem notification_failure_is_advisory_witness:
  "(\<exists>r st'. assignProject (\<lambda>_. False) invoice_state ''p1'' (Some ''u1'') = (Inr r, st') \<and>
      statusCode r = 200 \<and>
      map_option assignedTo (findById p_id (projects st') ''p1'') = Some (Some ''u1'') \<and>
      ''Email sending failed:'' \<in> set (errlog st')) \<and>
   (\<exists>r st'. markAsChecked (\<lambda>_. False) estimation_state ''e1'' (Some ''u1'') None (Some True) =
        (Inr r, st') \<and>
      statusCode r = 200 \<and> isChecked (payload r) \<and>
      findById e_id (estimations st') ''e1'' = Some (payload r) \<and>
      ''Failed to send notification email to super admin:'' \<in> set (errlog st'))"
proof -
  let ?eng = "\<lparr>u_id = ''u1'', email = ''admin@example.com'', firstName = ''Ada'',
               lastName = ''Lee'', role = ''super_admin''\<rparr>"
  have a: "''u1'' \<noteq> [] \<and> ''p1'' \<noteq> [] \<and>
      findById p_id (projects invoice_state) ''p1'' = Some (hd (projects invoice_state)) \<and>
      findById u_id (users invoice_state) ''u1'' = Some ?eng \<and>
      project_valid (hd (projects invoice_state))"
    by (simp add: invoice_state_def st0_def findById_def project_valid_def
        project_status_enum_def)
  have b: "truthy_str (Some ''u1'') \<and>
      findById e_id (estimations estimation_state) ''e1'' = Some example_estimation \<and>
      \<not> isChecked example_estimation \<and> estimation_valid example_estimation"
    using example_estimation_valid
    by (simp add: estimation_state_def findById_def example_estimation_def truthy_str_def)
  have c: "?eng \<in> set (users estimation_state) \<and> role ?eng = ''super_admin''"
    by (simp add: estimation_state_def invoice_state_def)
  from notification_failure_is_advisory[where a = "''u1''" and i = "''p1''" and
      st = invoice_state and proj = "hd (projects invoice_state)" and eng = ?eng and
      transport = "\<lambda>_. False", THEN conjunct1] a
  obtain r1 s1 where r1: "assignProject (\<lambda>_. False) invoice_state ''p1'' (Some ''u1'') = (Inr r1, s1)"
      "statusCode r1 = 200"
      "map_option assignedTo (findById p_id (projects s1) ''p1'') = Some (Some ''u1'')"
      "''Email sending failed:'' \<in> set (errlog s1)"
    by auto
  from notification_failure_is_advisory[where st = estimation_state and j = "''e1''" and
      uid = "Some ''u1''" and e = example_estimation and c = None and
      transport = "\<lambda>_. False", THEN conjunct2] b
  obtain r2 s2 where r2:
      "markAsChecked (\<lambda>_. False) estimation_state ''e1'' (Some ''u1'') None (Some True) =
         (Inr r2, s2)"
      "statusCode r2 = 200" "isChecked (payload r2)"
      "findById e_id (estimations s2) ''e1'' = Some (payload r2)"
      "\<forall>admin \<in> set (users estimation_state).
          role admin = ''super_admin'' \<and> \<not> False \<longrightarrow>
          ''Failed to send notification email to super admin:'' \<in> set (errlog s2)"
    by auto
  from r2(5) c have "''Failed to send notification email to super admin:'' \<in> set (errlog s2)"
    by blast
  with r1 r2(1-4) show ?thesis by blast
qed

subsection \<open>Rejection during the check\<close>

lemma draft_is_no_target: "\<not> isTransitionAllowed s ''draft''"
  by (simp add: isTransitionAllowed_def status_transition_table_def)

lemma markAsChecked_rejected_result:
  assumes "truthy_str uid" "findById e_id (estimations st) j = Some e" "estimation_valid e"
  shows "fst (markAsChecked transport st j uid c (Some False)) =
           Inr (ApiResponse 200
                  (pre_save (e\<lparr>isChecked := False, checkedBy := None,
                               approvalComment := (if truthy_str c then c
                                                   else approvalComment e)\<rparr>))
                  ''Estimation rejected successfully'')"
    and "projects (snd (markAsChecked transport st j uid c (Some False))) =
           update_first (\<lambda>p. p_id p = e_project e)
             (\<lambda>p. p\<lparr>status := ''draft'', updatedBy := uid\<rparr>) (projects st)"
  using assms
  by (auto simp: markAsChecked_def save_estimation_def Let_def pre_save_fields
      estimation_valid_flags split: prod.splits option.splits)

text \<open>
  C10: for an existing estimation (which, as every stored estimation, satisfies its
  schema) whose project exists, and an authenticated acting user, \<open>markAsChecked\<close> with \<open>isChecked = false\<close> succeeds and the persisted status
  of the project is \<open>draft\<close>, whatever it was before; the Status Transition Table is
  not consulted, and it could not allow the move: no row of the table lists \<open>draft\<close>
  as a target.
\<close>

theorem rejected_check_resets_to_draft:
  assumes "truthy_str uid" and "findById e_id (estimations st) j = Some e"
    and "estimation_valid e"
    and "findById p_id (projects st) (e_project e) = Some proj"
  shows "(\<exists>r st'. markAsChecked transport st j uid c (Some False) = (Inr r, st') \<and>
            statusCode r = 200 \<and> \<not> isChecked (payload r) \<and>
            persisted_status st' (e_project e) = Some ''draft'') \<and>
         \<not> isTransitionAllowed (status proj) ''draft'' \<and>
         (\<forall>s. \<not> isTransitionAllowed s ''draft'') \<and>
         (\<forall>s ts. validStatusTransitions s = Some ts \<longrightarrow> ''draft'' \<notin> set ts)"
proof (intro conjI)
  obtain out st' where o: "markAsChecked transport st j uid c (Some False) = (out, st')"
    by (cases "markAsChecked transport st j uid c (Some False)") auto
  note r = markAsChecked_rejected_result[OF assms(1,2,3), of transport c]
  let ?saved = "pre_save (e\<lparr>isChecked := False, checkedBy := None,
                  approvalComment := (if truthy_str c then c else approvalComment e)\<rparr>)"
  have 1: "out = Inr (ApiResponse 200 ?saved ''Estimation rejected successfully'')"
    using r(1) o by simp
  have 2: "persisted_status st' (e_project e) = Some ''draft''"
    using r(2) o assms(4) by (simp add: persisted_status_def findById_update_first)
  have 3: "\<not> isChecked ?saved" by (simp add: pre_save_fields)
  show "\<exists>r st'. markAsChecked transport st j uid c (Some False) = (Inr r, st') \<and>
            statusCode r = 200 \<and> \<not> isChecked (payload r) \<and>
            persisted_status st' (e_project e) = Some ''draft''"
    apply (rule exI[of _ "ApiResponse 200 ?saved ''Estimation rejected successfully''"])
    apply (rule exI[of _ st'])
    using o 1 2 3 by simp
  show "\<not> isTransitionAllowed (status proj) ''draft''"
    by (rule draft_is_no_target)
  show "\<forall>s. \<not> isTransitionAllowed s ''draft''"
    using draft_is_no_target by blast
  show "\<forall>s ts. validStatusTransitions s = Some ts \<longrightarrow> ''draft'' \<notin> set ts"
  proof (intro allI impI)
    fix s ts
    assume v: "validStatusTransitions s = Some ts"
    have "transition_rejected s ''draft''"
      unfolding transition_rejected_iff by (rule draft_is_no_target)
    then show "''draft'' \<notin> set ts"
      using v by (simp add: transition_rejected_def)
  qed
qed

theorem rejected_check_resets_to_draft_witness:
  "persisted_status (invoice_state\<lparr>projects :=
       [\<lparr>p_id = ''p1'', projectName = ''Villa'', client = ''c1'', status = ''quotation_sent'',
         progress = 0, createdBy = ''u1'', updatedBy = None, assignedTo = None\<rparr>],
       estimations := [example_estimation\<lparr>isChecked := True\<rparr>]\<rparr>) ''p1'' =
     Some ''quotation_sent'' \<and>
   (\<exists>r st'. markAsChecked (\<lambda>_. True)
        (invoice_state\<lparr>projects :=
           [\<lparr>p_id = ''p1'', projectName = ''Villa'', client = ''c1'', status = ''quotation_sent'',
             progress = 0, createdBy = ''u1'', updatedBy = None, assignedTo = None\<rparr>],
           estimations := [example_estimation\<lparr>isChecked := True\<rparr>]\<rparr>)
        ''e1'' (Some ''u1'') None (Some False) = (Inr r, st') \<and>
      statusCode r = 200 \<and> persisted_status st' ''p1'' = Some ''draft'')"
proof -
  let ?p = "\<lparr>p_id = ''p1'', projectName = ''Villa'', client = ''c1'', status = ''quotation_sent'',
         progress = 0, createdBy = ''u1'', updatedBy = None, assignedTo = None\<rparr>"
  let ?st = "invoice_state\<lparr>projects := [?p],
       estimations := [example_estimation\<lparr>isChecked := True\<rparr>]\<rparr>"
  have u: "truthy_str (Some ''u1'')" by (simp add: truthy_str_def)
  have f: "findById e_id (estimations ?st) ''e1'' = Some (example_estimation\<lparr>isChecked := True\<rparr>)"
    by (simp add: findById_def example_estimation_def)
  have p: "findById p_id (projects ?st) (e_project (example_estimation\<lparr>isChecked := True\<rparr>)) =
      Some ?p"
    by (simp add: findById_def example_estimation_def)
  have s: "persisted_status ?st ''p1'' = Some ''quotation_sent''"
    by (simp add: persisted_status_def findById_def)
  have k: "e_project (example_estimation\<lparr>isChecked := True\<rparr>) = ''p1''"
    by (simp add: example_estimation_def)
  have v: "estimation_valid (example_estimation\<lparr>isChecked := True\<rparr>)"
    using example_estimation_valid by (simp add: estimation_valid_def)
  from rejected_check_resets_to_draft[OF u f v p, of "\<lambda>_. True" None, THEN conjunct1]
  show ?thesis unfolding k using s by blast
qed

end
